theory Spec2Isabelle
  imports Main
begin

section \<open>Exceptions, data and the outside world\<close>

text \<open>
  The Python exception classes that the three source files raise, catch or let through.
  \<open>ConnectionException\<close> is the class declared in \<open>helpers/device_helper.py\<close>; the two
  \<open>NetMiko...\<close> classes come from the session library; \<open>AttributeError\<close> and
  \<open>TypeError\<close> are what the interpreter raises for a missing attribute and for a badly
  formed call; \<open>OtherError\<close> stands for every class that no handler of the program names.
\<close>

datatype exn =
    ConnectionException string
  | ValueError string
  | NetMikoAuthenticationException
  | NetMikoTimeoutException
  | AttributeError string
  | TypeError string
  | OtherError string

text \<open>A credential set is a dictionary in which each of the three keys may be absent.\<close>

record credential =
  username :: "string option"
  password :: "string option"
  secret :: "string option"

text \<open>
  The \<open>credentials\<close> argument is \<open>None\<close> (the value \<open>Device.__init__\<close> stores), one
  dictionary, or a list of dictionaries.
\<close>

datatype creds_arg = CredNone | CredDict credential | CredList "credential list"

text \<open>The \<open>device_type\<close> argument is a string (default \<open>'autodetect'\<close>) or a list of strings.\<close>

datatype devtype_arg = TypeStr string | TypeList "string list"

text \<open>The class \<open>Device\<close> of \<open>ASAUpdater.py\<close>.\<close>

record Device =
  ip_address :: string
  name :: string
  connected :: bool
  successfully_rebooted :: bool
  file_uploaded :: bool
  error :: string
  credentials :: creds_arg
  config_backed_up :: bool

definition Device_init :: "string \<Rightarrow> Device" where
  "Device_init ip = \<lparr> ip_address = ip, name = [], connected = False,
     successfully_rebooted = False, file_uploaded = False, error = [],
     credentials = CredNone, config_backed_up = False \<rparr>"

text \<open>
  The dictionary \<open>device\<close> that \<open>connect_to_device\<close> fills in and hands to
  \<open>ConnectHandler(**device)\<close>; a key that is absent is \<open>None\<close>.
\<close>

record conn_params =
  p_ip :: string
  p_timeout :: "int option"
  p_username :: "string option"
  p_password :: "string option"
  p_secret :: "string option"
  p_device_type :: "string option"

text \<open>
  Every call the program makes on something outside itself: the session library, the file
  system, the OS. \<open>SendConfgSet\<close> is the call written at lines 171 and 172.
\<close>

datatype action =
    ConnectHandler conn_params
  | Enable
  | FindPrompt
  | SendCommand string
  | SendConfigSet "string list"
  | SaveConfig
  | IsDir string
  | WriteFile string string
  | FileTransferOpen string string string
  | VerifySpaceAvailable
  | TransferFile
  | VerifyFile
  | FileTransferClose
  | SendConfgSet "string list"
  | Sleep nat
  | Ping string nat

text \<open>
  What the outside answers. A call of the session library either returns or raises; the
  answers are parameters of the model, so that a theorem holds for every behaviour of the
  appliance and of the library.
\<close>

record env =
  connect_result :: "conn_params \<Rightarrow> exn option"
  enable_result :: "conn_params \<Rightarrow> exn option"
  prompt_result :: "exn + string"
  command_result :: "string \<Rightarrow> exn + string"
  config_result :: "string list \<Rightarrow> exn option"
  save_result :: "exn option"
  is_dir :: "string \<Rightarrow> bool"
  ft_open_result :: "exn option"
  space_result :: "exn + bool"
  transfer_result :: "exn option"
  verify_result :: "exn + bool"
  ping_status :: "string \<Rightarrow> int"

text \<open>
  The state a run threads through: the \<open>Device\<close> object (mutated in place by
  \<open>upgrade_asa\<close>), the appliance's SCP setting (\<open>ssh scopy enable\<close>), and the calls made
  so far, oldest first.
\<close>

record world =
  dev :: Device
  scp_on :: bool
  trace :: "action list"

section \<open>Statements that may raise\<close>

type_synonym 'a prog = "world \<Rightarrow> (exn + 'a) \<times> world"

definition returnp :: "'a \<Rightarrow> 'a prog" where
  "returnp x w = (Inr x, w)"

definition raisep :: "exn \<Rightarrow> 'a prog" where
  "raisep e w = (Inl e, w)"

definition bindp :: "'a prog \<Rightarrow> ('a \<Rightarrow> 'b prog) \<Rightarrow> 'b prog" where
  "bindp m f w = (case m w of (Inl e, w') \<Rightarrow> (Inl e, w') | (Inr x, w') \<Rightarrow> f x w')"

definition of_opt :: "exn option \<Rightarrow> exn + unit" where
  "of_opt r = (case r of None \<Rightarrow> Inr () | Some e \<Rightarrow> Inl e)"

text \<open>An outside call is recorded in the trace, then returns or raises as the outside says.\<close>

definition call :: "action \<Rightarrow> exn + 'a \<Rightarrow> 'a prog" where
  "call a r w = (r, w\<lparr>trace := trace w @ [a]\<rparr>)"

definition modify_dev :: "(Device \<Rightarrow> Device) \<Rightarrow> unit prog" where
  "modify_dev f w = (Inr (), w\<lparr>dev := f (dev w)\<rparr>)"

section \<open>\<open>DeviceHelper.connect_to_device\<close>\<close>

text \<open>
  Python truth value of the \<open>credentials\<close> argument: \<open>None\<close>, the empty list and the
  empty dictionary are false.
\<close>

fun truthy :: "creds_arg \<Rightarrow> bool" where
  "truthy CredNone = False"
| "truthy (CredDict c) = (username c \<noteq> None \<or> password c \<noteq> None \<or> secret c \<noteq> None)"
| "truthy (CredList cs) = (cs \<noteq> [])"

text \<open>\<open>if isinstance(credentials, dict): credentials = [credentials]\<close>\<close>

fun as_list :: "creds_arg \<Rightarrow> credential list" where
  "as_list CredNone = []"
| "as_list (CredDict c) = [c]"
| "as_list (CredList cs) = cs"

text \<open>
  \<open>if not isinstance(credentials, list): device_type = [device_type]\<close> tests
  \<open>credentials\<close>, which is a list by now, so \<open>device_type\<close> is never wrapped: the loop
  \<open>for d in device_type\<close> runs over a list's elements, or over the characters of a string.
\<close>

fun type_candidates :: "devtype_arg \<Rightarrow> string list" where
  "type_candidates (TypeList ds) = ds"
| "type_candidates (TypeStr s) = map (\<lambda>c. [c]) s"

text \<open>The three \<open>if "key" in c\<close> updates; a missing secret is popped, the others stay.\<close>

definition set_credential :: "conn_params \<Rightarrow> credential \<Rightarrow> conn_params" where
  "set_credential p c =
     p\<lparr> p_username := (case username c of Some u \<Rightarrow> Some u | None \<Rightarrow> p_username p),
        p_password := (case password c of Some x \<Rightarrow> Some x | None \<Rightarrow> p_password p),
        p_secret := secret c \<rparr>"

text \<open>The body of the inner \<open>try\<close>: \<open>ConnectHandler(**device)\<close>, then \<open>enable()\<close> if asked.\<close>

definition attempt :: "env \<Rightarrow> bool \<Rightarrow> conn_params \<Rightarrow> unit prog" where
  "attempt e enable_mode p =
     bindp (call (ConnectHandler p) (of_opt (connect_result e p)))
       (\<lambda>_. if enable_mode then call Enable (of_opt (enable_result e p)) else returnp ())"

text \<open>
  The loop over device types. \<open>Inr (Inl p)\<close> is \<open>return connection\<close> (the session opened
  with \<open>p\<close>); \<open>Inr (Inr p)\<close> is the loop running out, with the dictionary as it then is.
  Only \<open>NetMikoAuthenticationException\<close> is swallowed; the timeout is raised again and
  every other class is not caught here.
\<close>

fun try_types :: "env \<Rightarrow> bool \<Rightarrow> conn_params \<Rightarrow> string list \<Rightarrow> (conn_params + conn_params) prog" where
  "try_types e enable_mode p [] w = (Inr (Inr p), w)"
| "try_types e enable_mode p (d # ds) w =
     (let p' = p\<lparr>p_device_type := Some d\<rparr> in
      case attempt e enable_mode p' w of
        (Inr _, w') \<Rightarrow> (Inr (Inl p'), w')
      | (Inl NetMikoAuthenticationException, w') \<Rightarrow> try_types e enable_mode p' ds w'
      | (Inl x, w') \<Rightarrow> (Inl x, w'))"

text \<open>The loop over credential sets; running out is \<open>Inr None\<close>.\<close>

fun try_credentials :: "env \<Rightarrow> bool \<Rightarrow> conn_params \<Rightarrow> string list \<Rightarrow> credential list \<Rightarrow> (conn_params option) prog" where
  "try_credentials e enable_mode p ds [] w = (Inr None, w)"
| "try_credentials e enable_mode p ds (c # cs) w =
     (case try_types e enable_mode (set_credential p c) ds w of
        (Inr (Inl q), w') \<Rightarrow> (Inr (Some q), w')
      | (Inr (Inr p'), w') \<Rightarrow> try_credentials e enable_mode p' ds cs w'
      | (Inl x, w') \<Rightarrow> (Inl x, w'))"

definition connect_to_device ::
  "env \<Rightarrow> string \<Rightarrow> creds_arg \<Rightarrow> bool \<Rightarrow> devtype_arg \<Rightarrow> int option \<Rightarrow> conn_params prog" where
  "connect_to_device e ipaddr creds enable_mode device_type timeout w =
     (if truthy creds then
        (let device = \<lparr> p_ip = ipaddr,
                         p_timeout = (case timeout of Some t \<Rightarrow> (if t \<noteq> 0 then Some t else None) | None \<Rightarrow> None),
                         p_username = None, p_password = None, p_secret = None,
                         p_device_type = None \<rparr> in
         case try_credentials e enable_mode device (type_candidates device_type) (as_list creds) w of
           (Inr (Some q), w') \<Rightarrow> (Inr q, w')
         | (Inr None, w') \<Rightarrow> (Inl (ConnectionException ''Unable to connect to device''), w')
         | (Inl NetMikoTimeoutException, w') \<Rightarrow> (Inl (ConnectionException ''Connection to device timed out''), w')
         | (Inl x, w') \<Rightarrow> (Inl x, w'))
      else (Inl (ConnectionException ''No Credentials provided''), w))"

section \<open>\<open>DeviceHelper.backup_config\<close> and \<open>DeviceHelper.ping\<close>\<close>

text \<open>
  \<open>dt.strptime(format="%Y-%m-%d_%H-%m")\<close>: \<open>datetime.strptime\<close> is a class method of two
  positional arguments (\<open>date_string\<close>, \<open>format\<close>) that takes no keyword argument, so this
  call raises \<open>TypeError\<close> before anything is formatted.
\<close>

definition strptime_format_only :: "string prog" where
  "strptime_format_only = raisep (TypeError ''strptime() takes no keyword arguments'')"

text \<open>
  \<open>Path(location)\<close> raises \<open>TypeError\<close> for \<open>None\<close> (the default of
  \<open>backup_location\<close>). The file is written only after the time stamp has been built.
\<close>

definition backup_config :: "env \<Rightarrow> string \<Rightarrow> string option \<Rightarrow> string \<Rightarrow> unit prog" where
  "backup_config e config location hostname =
     (case location of
        None \<Rightarrow> raisep (TypeError ''expected str, bytes or os.PathLike object, not NoneType'')
      | Some loc \<Rightarrow>
          bindp (call (IsDir loc) (Inr (is_dir e loc)))
            (\<lambda>d. if d then
                   bindp strptime_format_only
                     (\<lambda>dt. call (WriteFile (loc @ ''/'' @ hostname @ ''_'' @ dt @ ''.txt'') config) (Inr ()))
                 else raisep (ValueError (''Location is not a directory - '' @ loc))))"

text \<open>
  \<open>ping\<close> runs the OS command and returns whether its exit status is 0. (The test
  \<open>sys.platform is "windows"\<close> only chooses the spelling of the count flag.)
\<close>

definition ping :: "env \<Rightarrow> string \<Rightarrow> nat \<Rightarrow> bool prog" where
  "ping e host ping_count = call (Ping host ping_count) (Inr (ping_status e host = 0))"

section \<open>String helpers\<close>

text \<open>\<open>str.lower()\<close> on the ASCII letters.\<close>

definition lower_char :: "char \<Rightarrow> char" where
  "lower_char c = (let n = (of_char c :: nat) in if 65 \<le> n \<and> n \<le> 90 then char_of (n + 32) else c)"

definition lower :: "string \<Rightarrow> string" where
  "lower s = map lower_char s"

text \<open>
  \<open>Path(p).name\<close> in the POSIX flavour: the last component of the path, where empty
  components and \<open>.\<close> do not count; the empty string when there is none.
\<close>

fun components :: "string \<Rightarrow> string \<Rightarrow> string list" where
  "components cur [] = [cur]"
| "components cur (c # cs) =
     (if c = CHR ''/'' then cur # components [] cs else components (cur @ [c]) cs)"

definition path_name :: "string \<Rightarrow> string" where
  "path_name p =
     (case filter (\<lambda>s. s \<noteq> [] \<and> s \<noteq> ''.'') (components [] p) of
        [] \<Rightarrow> []
      | x # xs \<Rightarrow> last (x # xs))"

text \<open>
  \<open>output.lower() is "ssh copy enable"\<close>: \<open>is\<close> compares object identity, and
  \<open>lower()\<close> has just built its result, which therefore is never the object of the literal
  in the source. The test is false for every text the appliance answers.
\<close>

definition is_the_literal :: "string \<Rightarrow> string \<Rightarrow> bool" where
  "is_the_literal fresh literal = False"

section \<open>\<open>upgrade_asa\<close>\<close>

definition get_dev :: "Device prog" where
  "get_dev w = (Inr (dev w), w)"

definition send_command :: "env \<Rightarrow> string \<Rightarrow> string prog" where
  "send_command e cmd = call (SendCommand cmd) (command_result e cmd)"

text \<open>
  What a configuration line does to the appliance's SCP setting; the lines take effect
  when \<open>send_config_set\<close> returns, and none does when it raises.
\<close>

definition scp_line :: "bool \<Rightarrow> string \<Rightarrow> bool" where
  "scp_line b l = (if l = ''ssh scopy enable'' then True
                   else if l = ''no ssh scopy enable'' then False else b)"

definition send_config_set :: "env \<Rightarrow> string list \<Rightarrow> unit prog" where
  "send_config_set e cmds w =
     (case config_result e cmds of
        Some x \<Rightarrow> (Inl x, w\<lparr>trace := trace w @ [SendConfigSet cmds]\<rparr>)
      | None \<Rightarrow> (Inr (), w\<lparr>scp_on := foldl scp_line (scp_on w) cmds,
                              trace := trace w @ [SendConfigSet cmds]\<rparr>))"

text \<open>
  \<open>connection.send_confg_set\<close> (lines 171 and 172): the session class has
  \<open>send_config_set\<close> and no attribute of this spelling, so the attribute lookup raises
  \<open>AttributeError\<close> and nothing is sent. The trace keeps the attempt.
\<close>

definition send_confg_set :: "string list \<Rightarrow> unit prog" where
  "send_confg_set cmds = call (SendConfgSet cmds) (Inl (AttributeError ''send_confg_set''))"

definition save_config :: "env \<Rightarrow> unit prog" where
  "save_config e = call SaveConfig (of_opt (save_result e))"

text \<open>Lines 94 to 101: connect, mark connected, read the prompt, store the name.\<close>

definition connect_stage :: "env \<Rightarrow> conn_params prog" where
  "connect_stage e =
     bindp get_dev (\<lambda>d.
     bindp (connect_to_device e (ip_address d) (credentials d) True (TypeList [''cisco_asa'']) None)
       (\<lambda>connection.
     bindp (modify_dev (\<lambda>d. d\<lparr>connected := True\<rparr>)) (\<lambda>_.
     bindp (call FindPrompt (prompt_result e)) (\<lambda>prompt.
     bindp (modify_dev (\<lambda>d. d\<lparr>name := butlast prompt\<rparr>)) (\<lambda>_.
     returnp connection)))))"

text \<open>Lines 104 to 110.\<close>

definition backup_stage :: "env \<Rightarrow> bool \<Rightarrow> string option \<Rightarrow> unit prog" where
  "backup_stage e backup_cfg backup_location =
     (if backup_cfg then
        bindp (send_command e ''sh run'') (\<lambda>config.
        bindp get_dev (\<lambda>d. backup_config e config backup_location (name d)))
      else returnp ())"

text \<open>The body of the \<open>with\<close> statement, lines 128 to 143.\<close>

definition transfer_body :: "env \<Rightarrow> unit prog" where
  "transfer_body e =
     bindp (call VerifySpaceAvailable (space_result e)) (\<lambda>space.
       if space then
         bindp (call TransferFile (of_opt (transfer_result e))) (\<lambda>_.
         bindp (call VerifyFile (verify_result e)) (\<lambda>ok.
           if \<not> ok then modify_dev (\<lambda>d. d\<lparr>error := ''File transfer verifier failed''\<rparr>)
           else modify_dev (\<lambda>d. d\<lparr>file_uploaded := True\<rparr>)))
       else modify_dev (\<lambda>d. d\<lparr>error := ''Not enough space to upload file''\<rparr>))"

text \<open>
  \<open>with FileTransfer(...) as scp\<close>: when the transfer object is set up the body runs, and
  the object is closed on every way out of the body.
\<close>

definition with_FileTransfer :: "env \<Rightarrow> string \<Rightarrow> string \<Rightarrow> string \<Rightarrow> 'a prog \<Rightarrow> 'a prog" where
  "with_FileTransfer e source_file dest_file file_system body =
     bindp (call (FileTransferOpen source_file dest_file file_system) (of_opt (ft_open_result e)))
       (\<lambda>_ w. case body w of (r, w') \<Rightarrow> (r, w'\<lparr>trace := trace w' @ [FileTransferClose]\<rparr>))"

text \<open>Lines 114 to 148: the SCP query, the transfer, and the SCP setting put back.\<close>

definition upload_stage :: "env \<Rightarrow> string \<Rightarrow> string \<Rightarrow> unit prog" where
  "upload_stage e image_location dest_drive =
     bindp (send_command e ''sh run | i ssh scopy enable'') (\<lambda>output.
     (let scp_enabled = is_the_literal (lower output) ''ssh copy enable'' in
      bindp (if scp_enabled then returnp () else send_config_set e [''ssh scopy enable'']) (\<lambda>_.
      bindp (with_FileTransfer e image_location (path_name image_location) dest_drive
               (transfer_body e)) (\<lambda>_.
      if \<not> scp_enabled then send_config_set e [''no ssh scopy enable''] else returnp ()))))"

text \<open>Lines 169 to 183; the value is what the function returns here.\<close>

definition reboot_stage :: "env \<Rightarrow> (Device option) prog" where
  "reboot_stage e =
     bindp (send_confg_set [''reboot'']) (\<lambda>_.
     bindp (send_confg_set [''y'']) (\<lambda>_.
     bindp (call (Sleep 300) (Inr ())) (\<lambda>_.
     bindp get_dev (\<lambda>d.
     bindp (ping e (ip_address d) 4) (\<lambda>r.
     bindp (modify_dev (\<lambda>d. d\<lparr>successfully_rebooted := r\<rparr>)) (\<lambda>_.
     bindp get_dev (\<lambda>d. returnp (Some d))))))))"

text \<open>
  Lines 151 to 183. The function has no \<open>return\<close> after this block, so every way through
  it that does not reach line 183 returns \<open>None\<close>.
\<close>

definition boot_stage :: "env \<Rightarrow> string \<Rightarrow> string \<Rightarrow> string \<Rightarrow> bool \<Rightarrow> (Device option) prog" where
  "boot_stage e image_type image_location dest_drive reboot =
     bindp get_dev (\<lambda>d.
       if file_uploaded d then
         (let asa_file_path = dest_drive @ ''/'' @ path_name image_location in
          bindp (if lower image_type = ''asa'' then send_config_set e [''boot system '' @ asa_file_path]
                 else if lower image_type = ''asdm'' then send_config_set e [''asdm image '' @ asa_file_path]
                 else returnp ()) (\<lambda>_.
          bindp (save_config e) (\<lambda>_.
          if reboot then reboot_stage e else returnp None)))
       else returnp None)"

definition upgrade_body ::
  "env \<Rightarrow> string \<Rightarrow> string \<Rightarrow> string \<Rightarrow> bool \<Rightarrow> bool \<Rightarrow> string option \<Rightarrow> (Device option) prog" where
  "upgrade_body e image_type image_location dest_drive reboot backup_cfg backup_location =
     bindp (connect_stage e) (\<lambda>connection.
     bindp (backup_stage e backup_cfg backup_location) (\<lambda>_.
     bindp (upload_stage e image_location dest_drive) (\<lambda>_.
     boot_stage e image_type image_location dest_drive reboot)))"

text \<open>
  What a call of \<open>upgrade_asa\<close> ends in: a returned value (\<open>None\<close> or the device) or an
  exception that leaves the function.
\<close>

datatype outcome = Returned "Device option" | Raised exn

text \<open>
  The \<open>try\<close> statement: both handlers clear \<open>connected\<close> and return the device; every
  other exception class leaves the function.
\<close>

definition handled :: "exn \<Rightarrow> bool" where
  "handled x = (case x of ConnectionException m \<Rightarrow> True | ValueError m \<Rightarrow> True | _ \<Rightarrow> False)"

definition upgrade_asa ::
  "env \<Rightarrow> string \<Rightarrow> string \<Rightarrow> string \<Rightarrow> bool \<Rightarrow> bool \<Rightarrow> string option \<Rightarrow> world \<Rightarrow> outcome \<times> world" where
  "upgrade_asa e image_type image_location dest_drive reboot backup_cfg backup_location w =
     (case upgrade_body e image_type image_location dest_drive reboot backup_cfg backup_location w of
        (Inr r, w') \<Rightarrow> (Returned r, w')
      | (Inl x, w') \<Rightarrow>
          if handled x then
            (let w'' = w'\<lparr>dev := (dev w')\<lparr>connected := False\<rparr>\<rparr> in (Returned (Some (dev w'')), w''))
          else (Raised x, w'))"

text \<open>A run starts with the device as given, the appliance's SCP setting, and no call made.\<close>

definition start :: "Device \<Rightarrow> bool \<Rightarrow> world" where
  "start d scp = \<lparr> dev = d, scp_on = scp, trace = [] \<rparr>"

section \<open>\<open>ThreadingHelper\<close>\<close>

text \<open>
  Where a worker thread stands in \<open>__worker\<close>: before the test \<open>input_queue.empty()\<close>,
  before \<open>get()\<close>, holding an item (before \<open>worker_func\<close> and \<open>output_queue.put\<close>),
  before \<open>task_done()\<close>, after leaving the loop, or dead of an exception that
  \<open>worker_func\<close> raised (nothing in \<open>__worker\<close> catches one).
\<close>

datatype 'a worker = AtTest | AtGet | Holding 'a | AtTaskDone | Exited | Died exn

record ('a, 'r) pool =
  input_queue :: "'a list"
  unfinished_tasks :: nat
  output_queue :: "'r list"
  workers :: "'a worker list"

text \<open>
  One step of worker \<open>i\<close>. \<open>get()\<close> on an empty queue blocks (the worker stays where
  it is); a dead or finished thread does nothing; so does an index that names no thread.
\<close>

definition worker_step :: "('a \<Rightarrow> exn + 'r) \<Rightarrow> nat \<Rightarrow> ('a, 'r) pool \<Rightarrow> ('a, 'r) pool" where
  "worker_step worker_func i p =
     (if i < length (workers p) then
        (case workers p ! i of
           AtTest \<Rightarrow> p\<lparr>workers := (workers p)[i := (if input_queue p = [] then Exited else AtGet)]\<rparr>
         | AtGet \<Rightarrow>
             (case input_queue p of
                [] \<Rightarrow> p
              | x # xs \<Rightarrow> p\<lparr>input_queue := xs, workers := (workers p)[i := Holding x]\<rparr>)
         | Holding x \<Rightarrow>
             (case worker_func x of
                Inl err \<Rightarrow> p\<lparr>workers := (workers p)[i := Died err]\<rparr>
              | Inr r \<Rightarrow> p\<lparr>output_queue := output_queue p @ [r],
                             workers := (workers p)[i := AtTaskDone]\<rparr>)
         | AtTaskDone \<Rightarrow> p\<lparr>unfinished_tasks := unfinished_tasks p - 1,
                              workers := (workers p)[i := AtTest]\<rparr>
         | Exited \<Rightarrow> p
         | Died err \<Rightarrow> p)
      else p)"

text \<open>
  \<open>input_queue.join()\<close> followed by \<open>return list(self.output_queue.queue)\<close>. The main
  thread returns once the count of unfinished tasks is 0; until then the threads run in
  the order the schedule gives. \<open>None\<close>: the schedule is used up and \<open>join\<close> still blocks.
\<close>

fun join :: "('a \<Rightarrow> exn + 'r) \<Rightarrow> nat list \<Rightarrow> ('a, 'r) pool \<Rightarrow> 'r list option" where
  "join worker_func [] p = (if unfinished_tasks p = 0 then Some (output_queue p) else None)"
| "join worker_func (i # sched) p =
     (if unfinished_tasks p = 0 then Some (output_queue p)
      else join worker_func sched (worker_step worker_func i p))"

definition run :: "('a \<Rightarrow> exn + 'r) \<Rightarrow> nat \<Rightarrow> 'a list \<Rightarrow> nat list \<Rightarrow> 'r list option" where
  "run worker_func num_of_workers items sched =
     join worker_func sched
       \<lparr> input_queue = items, unfinished_tasks = length items, output_queue = [],
          workers = replicate num_of_workers AtTest \<rparr>"

text \<open>
  \<open>upgrade_asa\<close> as the worker function of \<open>main\<close>: each device meets its own appliance
  (\<open>site\<close>, \<open>scp\<close>); a returned value goes to the output queue, an exception that leaves
  \<open>upgrade_asa\<close> leaves the thread.
\<close>

definition asa_worker ::
  "(Device \<Rightarrow> env) \<Rightarrow> (Device \<Rightarrow> bool) \<Rightarrow> string \<Rightarrow> string \<Rightarrow> string \<Rightarrow> bool \<Rightarrow> bool \<Rightarrow> string option
     \<Rightarrow> Device \<Rightarrow> exn + Device option" where
  "asa_worker site scp image_type image_location dest_drive reboot backup_cfg backup_location d =
     (case fst (upgrade_asa (site d) image_type image_location dest_drive reboot backup_cfg
                  backup_location (start d (scp d))) of
        Returned r \<Rightarrow> Inr r
      | Raised x \<Rightarrow> Inl x)"

section \<open>Notions the properties are stated with\<close>

text \<open>
  The credential fallback search in the specification's words: the credential sets in
  order and, for each, the device types in order. \<open>candidates\<close> lists the dictionaries
  that would be tried if every attempt were rejected.
\<close>

fun candidates :: "conn_params \<Rightarrow> string list \<Rightarrow> credential list \<Rightarrow> conn_params list" where
  "candidates p ds [] = []"
| "candidates p ds (c # cs) =
     map (\<lambda>d. (set_credential p c)\<lparr>p_device_type := Some d\<rparr>) ds
       @ candidates (set_credential p c) ds cs"

text \<open>What one attempt answers, and the calls it makes.\<close>

definition attempt_result :: "env \<Rightarrow> bool \<Rightarrow> conn_params \<Rightarrow> exn + unit" where
  "attempt_result e enable_mode p =
     (case connect_result e p of
        Some x \<Rightarrow> Inl x
      | None \<Rightarrow> if enable_mode then of_opt (enable_result e p) else Inr ())"

definition attempt_calls :: "env \<Rightarrow> bool \<Rightarrow> conn_params \<Rightarrow> action list" where
  "attempt_calls e enable_mode p =
     (if connect_result e p = None \<and> enable_mode then [ConnectHandler p, Enable]
      else [ConnectHandler p])"

text \<open>
  The search over a list of candidates: stop at the first that connects, go on after an
  authentication failure, and stop with the exception at anything else.
\<close>

fun search :: "env \<Rightarrow> bool \<Rightarrow> conn_params list \<Rightarrow> (conn_params option) prog" where
  "search e enable_mode [] w = (Inr None, w)"
| "search e enable_mode (q # qs) w =
     (case attempt e enable_mode q w of
        (Inr _, w') \<Rightarrow> (Inr (Some q), w')
      | (Inl NetMikoAuthenticationException, w') \<Rightarrow> search e enable_mode qs w'
      | (Inl x, w') \<Rightarrow> (Inl x, w'))"

definition first_params :: "string \<Rightarrow> int option \<Rightarrow> conn_params" where
  "first_params ipaddr timeout =
     \<lparr> p_ip = ipaddr,
        p_timeout = (case timeout of Some t \<Rightarrow> (if t \<noteq> 0 then Some t else None) | None \<Rightarrow> None),
        p_username = None, p_password = None, p_secret = None, p_device_type = None \<rparr>"

text \<open>The calls made while connecting.\<close>

fun connect_call :: "action \<Rightarrow> bool" where
  "connect_call (ConnectHandler p) = True"
| "connect_call Enable = True"
| "connect_call _ = False"

text \<open>
  A boot-pointer command is a configuration set of one line that begins
  \<open>boot system\<close> or \<open>asdm image\<close>.
\<close>

fun boot_pointer :: "action \<Rightarrow> bool" where
  "boot_pointer (SendConfigSet [l]) = (take 12 l = ''boot system '' \<or> take 11 l = ''asdm image '')"
| "boot_pointer _ = False"

text \<open>
  The steps after the upload: the boot pointer, saving the configuration, and the reboot
  with its wait and probe.
\<close>

fun late_step :: "action \<Rightarrow> bool" where
  "late_step SaveConfig = True"
| "late_step (SendConfgSet cmds) = True"
| "late_step (Sleep n) = True"
| "late_step (Ping h n) = True"
| "late_step a = boot_pointer a"

text \<open>The calls of the upload step: the transfer object and its three operations.\<close>

fun upload_call :: "action \<Rightarrow> bool" where
  "upload_call (FileTransferOpen s d f) = True"
| "upload_call VerifySpaceAvailable = True"
| "upload_call TransferFile = True"
| "upload_call VerifyFile = True"
| "upload_call FileTransferClose = True"
| "upload_call _ = False"

section \<open>A concrete appliance\<close>

text \<open>
  An appliance that accepts the credentials, has room for the image, verifies the copy,
  and does not answer the probe after a reboot; \<open>/backups\<close> is a directory on the local
  machine and nothing else is.
\<close>

definition lab_env :: env where
  "lab_env = \<lparr> connect_result = (\<lambda>p. None), enable_result = (\<lambda>p. None),
     prompt_result = Inr ''ciscoasa#'', command_result = (\<lambda>c. Inr []),
     config_result = (\<lambda>c. None), save_result = None, is_dir = (\<lambda>l. l = ''/backups''),
     ft_open_result = None, space_result = Inr True, transfer_result = None,
     verify_result = Inr True, ping_status = (\<lambda>h. 1) \<rparr>"

definition lab_credential :: credential where
  "lab_credential = \<lparr> username = Some ''admin'', password = Some ''pw'', secret = None \<rparr>"

definition lab_device :: Device where
  "lab_device = (Device_init ''10.0.0.1'')\<lparr>credentials := CredList [lab_credential]\<rparr>"

definition lab_params :: conn_params where
  "lab_params = \<lparr> p_ip = ''10.0.0.1'', p_timeout = None, p_username = Some ''admin'',
     p_password = Some ''pw'', p_secret = None, p_device_type = Some ''cisco_asa'' \<rparr>"

definition lab_credential2 :: credential where
  "lab_credential2 = \<lparr> username = Some ''backup'', password = Some ''pw2'', secret = Some ''en'' \<rparr>"

text \<open>An unreachable appliance, and one that rejects the user \<open>admin\<close> only.\<close>

definition unreachable_env :: env where
  "unreachable_env = lab_env\<lparr>connect_result := (\<lambda>p. Some NetMikoTimeoutException)\<rparr>"

definition picky_env :: env where
  "picky_env = lab_env\<lparr>connect_result :=
     (\<lambda>p. if p_username p = Some ''admin'' then Some NetMikoAuthenticationException else None)\<rparr>"

definition lab_params2 :: conn_params where
  "lab_params2 = \<lparr> p_ip = ''10.0.0.1'', p_timeout = None, p_username = Some ''backup'',
     p_password = Some ''pw2'', p_secret = Some ''en'', p_device_type = Some ''cisco_asa'' \<rparr>"

text \<open>The same appliance when the copy fails verification, and when the transfer raises.\<close>

definition unverified_env :: env where
  "unverified_env = lab_env\<lparr>verify_result := Inr False\<rparr>"

definition stalled_env :: env where
  "stalled_env = lab_env\<lparr>transfer_result := Some (OtherError ''transfer'')\<rparr>"

text \<open>The same appliance with SCP configured: it answers the query with the configured line.\<close>

definition scp_enabled_env :: env where
  "scp_enabled_env = lab_env\<lparr>command_result :=
     (\<lambda>c. if c = ''sh run | i ssh scopy enable'' then Inr ''ssh scopy enable'' else Inr [])\<rparr>"

section \<open>The connector as a search\<close>

text \<open>
  The two nested loops of \<open>connect_to_device\<close>, which update one dictionary as they go,
  try exactly the candidates of \<open>candidates\<close> in order, as \<open>search\<close> does.
\<close>

lemma attempt_eq: "attempt e en p w = (attempt_result e en p, w\<lparr>trace := trace w @ attempt_calls e en p\<rparr>)"
  by (simp add: attempt_def attempt_result_def attempt_calls_def bindp_def call_def returnp_def of_opt_def split: option.splits)

lemma search_append:
  "search e en (xs @ ys) w =
     (case search e en xs w of (Inr None, w') \<Rightarrow> search e en ys w' | (r, w') \<Rightarrow> (r, w'))"
  by (induction xs arbitrary: w) (auto split: prod.splits sum.splits exn.splits option.splits)

lemma try_types_search:
  "try_types e en p ds w =
     (case search e en (map (\<lambda>d. p\<lparr>p_device_type := Some d\<rparr>) ds) w of
        (Inr (Some q), w') \<Rightarrow> (Inr (Inl q), w')
      | (Inr None, w') \<Rightarrow> (Inr (Inr (if ds = [] then p else p\<lparr>p_device_type := Some (last ds)\<rparr>)), w')
      | (Inl x, w') \<Rightarrow> (Inl x, w'))"
proof (induction ds arbitrary: p w)
  case Nil
  show ?case by simp
next
  case (Cons d ds)
  show ?case
    by (simp add: Let_def Cons.IH split: prod.splits sum.splits exn.splits option.splits)
qed

lemma candidates_device_type:
  "candidates (p\<lparr>p_device_type := t\<rparr>) ds cs = candidates p ds cs"
proof (induction cs arbitrary: p)
  case Nil
  show ?case by simp
next
  case (Cons c cs)
  have "set_credential (p\<lparr>p_device_type := t\<rparr>) c = (set_credential p c)\<lparr>p_device_type := t\<rparr>"
    by (cases p) (simp add: set_credential_def split: option.splits)
  then show ?case by (simp add: Cons.IH)
qed

lemma try_credentials_search:
  "try_credentials e en p ds cs w = search e en (candidates p ds cs) w"
proof (induction cs arbitrary: p w ds)
  case Nil
  show ?case by simp
next
  case (Cons c cs)
  show ?case
    by (simp add: try_types_search search_append Cons.IH candidates_device_type
          split: prod.splits sum.splits option.splits)
qed

lemma connect_to_device_search:
  "connect_to_device e ipaddr creds en dt timeout w =
     (if truthy creds then
        (case search e en (candidates (first_params ipaddr timeout) (type_candidates dt) (as_list creds)) w of
           (Inr (Some q), w') \<Rightarrow> (Inr q, w')
         | (Inr None, w') \<Rightarrow> (Inl (ConnectionException ''Unable to connect to device''), w')
         | (Inl NetMikoTimeoutException, w') \<Rightarrow> (Inl (ConnectionException ''Connection to device timed out''), w')
         | (Inl x, w') \<Rightarrow> (Inl x, w'))
      else (Inl (ConnectionException ''No Credentials provided''), w))"
  by (simp add: connect_to_device_def first_params_def try_credentials_search Let_def)

lemma search_rejected_prefix:
  "\<forall>r \<in> set pre. attempt_result e en r = Inl NetMikoAuthenticationException \<Longrightarrow>
   search e en (pre @ qs) w = search e en qs (w\<lparr>trace := trace w @ concat (map (attempt_calls e en) pre)\<rparr>)"
  by (induction pre arbitrary: w) (simp_all add: attempt_eq)

lemma search_frame:
  "search e en qs w = (r, w') \<Longrightarrow>
     dev w' = dev w \<and> scp_on w' = scp_on w \<and>
     (\<exists>acts. trace w' = trace w @ acts \<and> (\<forall>a \<in> set acts. connect_call a))"
proof (induction qs arbitrary: w)
  case Nil
  then show ?case by auto
next
  case (Cons q qs)
  have calls: "\<forall>a \<in> set (attempt_calls e en q). connect_call a"
    by (simp add: attempt_calls_def)
  show ?case
  proof (cases "attempt_result e en q = Inl NetMikoAuthenticationException")
    case True
    with Cons.prems have "search e en qs (w\<lparr>trace := trace w @ attempt_calls e en q\<rparr>) = (r, w')"
      by (simp add: attempt_eq)
    from Cons.IH[OF this] calls show ?thesis by auto
  next
    case False
    with Cons.prems have "w' = w\<lparr>trace := trace w @ attempt_calls e en q\<rparr>"
      by (auto simp: attempt_eq split: sum.splits exn.splits)
    with calls show ?thesis by auto
  qed
qed

lemma connect_frame:
  "connect_to_device e ipaddr creds en dt timeout w = (r, w') \<Longrightarrow>
     dev w' = dev w \<and> scp_on w' = scp_on w \<and>
     (\<exists>acts. trace w' = trace w @ acts \<and> (\<forall>a \<in> set acts. connect_call a))"
proof (cases "truthy creds")
  case False
  assume "connect_to_device e ipaddr creds en dt timeout w = (r, w')"
  with False show ?thesis by (simp add: connect_to_device_search)
next
  case True
  assume a: "connect_to_device e ipaddr creds en dt timeout w = (r, w')"
  obtain r0 w0 where s: "search e en (candidates (first_params ipaddr timeout) (type_candidates dt) (as_list creds)) w = (r0, w0)"
    by (cases "search e en (candidates (first_params ipaddr timeout) (type_candidates dt) (as_list creds)) w") auto
  from a True s have "w' = w0"
    by (auto simp: connect_to_device_search split: sum.splits option.splits exn.splits)
  with search_frame[OF s] show ?thesis by simp
qed

section \<open>What each stage of \<open>upgrade_asa\<close> leaves behind\<close>

lemmas prog_defs = bindp_def returnp_def raisep_def call_def modify_dev_def get_dev_def
  send_command_def send_config_set_def send_confg_set_def save_config_def of_opt_def

lemma not_late_connect: "connect_call a \<or> a = FindPrompt \<Longrightarrow> \<not> late_step a \<and> \<not> upload_call a"
  by (cases a) auto

lemma connect_stage_eq:
  "connect_stage e w =
     (case connect_to_device e (ip_address (dev w)) (credentials (dev w)) True (TypeList [''cisco_asa'']) None w of
        (Inl x, w') \<Rightarrow> (Inl x, w')
      | (Inr q, w') \<Rightarrow>
          (case prompt_result e of
             Inl x \<Rightarrow> (Inl x, w'\<lparr>dev := (dev w')\<lparr>connected := True\<rparr>, trace := trace w' @ [FindPrompt]\<rparr>)
           | Inr pr \<Rightarrow> (Inr q, w'\<lparr>dev := (dev w')\<lparr>connected := True, name := butlast pr\<rparr>,
                                  trace := trace w' @ [FindPrompt]\<rparr>)))"
  by (simp add: connect_stage_def prog_defs split: prod.splits sum.splits)

lemma connect_stage_frame:
  assumes "connect_stage e w = (r, w1)"
  shows "scp_on w1 = scp_on w \<and> file_uploaded (dev w1) = file_uploaded (dev w)
         \<and> error (dev w1) = error (dev w)
         \<and> (\<exists>acts. trace w1 = trace w @ acts \<and> (\<forall>a \<in> set acts. \<not> late_step a \<and> \<not> upload_call a))"
proof -
  obtain r0 w0 where c: "connect_to_device e (ip_address (dev w)) (credentials (dev w)) True (TypeList [''cisco_asa'']) None w = (r0, w0)"
    by (cases "connect_to_device e (ip_address (dev w)) (credentials (dev w)) True (TypeList [''cisco_asa'']) None w") auto
  from connect_frame[OF c] obtain acts where
    f: "dev w0 = dev w" "scp_on w0 = scp_on w" "trace w0 = trace w @ acts" "\<forall>a \<in> set acts. connect_call a"
    by auto
  have "\<not> late_step a \<and> \<not> upload_call a" if "a \<in> set (acts @ [FindPrompt])" for a
    using that f(4) not_late_connect[of a] by auto
  then have "\<forall>a \<in> set (acts @ [FindPrompt]). \<not> late_step a \<and> \<not> upload_call a"
    by blast
  with assms c f show ?thesis
    by (auto simp: connect_stage_eq split: sum.splits)
qed

lemma backup_stage_frame:
  assumes "backup_stage e b l w = (r, w')"
  shows "dev w' = dev w \<and> scp_on w' = scp_on w
         \<and> (\<exists>acts. trace w' = trace w @ acts \<and> (\<forall>a \<in> set acts. \<not> late_step a \<and> \<not> upload_call a))"
  using assms
  by (auto simp: backup_stage_def backup_config_def strptime_format_only_def prog_defs
      split: if_splits sum.splits option.splits)

lemma backup_stage_not_dir:
  assumes "command_result e ''sh run'' = Inr config" and "\<not> is_dir e loc"
  shows "backup_stage e True (Some loc) w =
           (Inl (ValueError (''Location is not a directory - '' @ loc)),
            w\<lparr>trace := trace w @ [SendCommand ''sh run'', IsDir loc]\<rparr>)"
  using assms
  by (simp add: backup_stage_def backup_config_def prog_defs)

lemma upload_stage_frame:
  assumes "upload_stage e il dd w = (r, w')"
  shows "connected (dev w') = connected (dev w)
       \<and> (\<exists>acts. trace w' = trace w @ acts \<and> (\<forall>a \<in> set acts. \<not> late_step a)
            \<and> (file_uploaded (dev w') \<longrightarrow> file_uploaded (dev w) \<or>
                 (space_result e = Inr True \<and> transfer_result e = None \<and> verify_result e = Inr True
                   \<and> TransferFile \<in> set acts \<and> VerifyFile \<in> set acts)))"
  using assms
  by (auto simp: upload_stage_def with_FileTransfer_def transfer_body_def is_the_literal_def prog_defs Let_def
      split: if_splits sum.splits option.splits prod.splits)

lemma upload_stage_done:
  assumes "upload_stage e il dd w = (r, w')"
    and "\<not> file_uploaded (dev w)" and "file_uploaded (dev w')"
    and "config_result e [''no ssh scopy enable''] = None"
  shows "r = Inr ()"
  using assms
  by (auto simp: upload_stage_def with_FileTransfer_def transfer_body_def is_the_literal_def prog_defs Let_def
      split: if_splits sum.splits option.splits prod.splits)

lemma boot_stage_frame:
  assumes "boot_stage e it il dd rb w = (r, w')"
  shows "dev w' = dev w \<and> (\<not> file_uploaded (dev w) \<longrightarrow> w' = w \<and> r = Inr None)
        \<and> (\<forall>v. r = Inr v \<longrightarrow> v = None) \<and> (\<exists>acts. trace w' = trace w @ acts)"
  using assms
  by (auto simp: boot_stage_def reboot_stage_def ping_def prog_defs Let_def
      split: if_splits sum.splits option.splits prod.splits)

lemma boot_stage_command:
  assumes "boot_stage e it il dd rb w = (r, w')" and "file_uploaded (dev w)"
  shows "\<exists>acts. trace w' = trace w @ acts
     \<and> (lower it = ''asa'' \<longrightarrow> SendConfigSet [''boot system '' @ dd @ ''/'' @ path_name il] \<in> set acts)
     \<and> (lower it = ''asdm'' \<longrightarrow> SendConfigSet [''asdm image '' @ dd @ ''/'' @ path_name il] \<in> set acts)
     \<and> (\<forall>a \<in> set acts. boot_pointer a \<longrightarrow>
           (lower it = ''asa'' \<and> a = SendConfigSet [''boot system '' @ dd @ ''/'' @ path_name il])
         \<or> (lower it = ''asdm'' \<and> a = SendConfigSet [''asdm image '' @ dd @ ''/'' @ path_name il]))"
  using assms
  by (auto simp: boot_stage_def reboot_stage_def ping_def prog_defs Let_def
      split: if_splits sum.splits option.splits prod.splits)

lemma late_boot: "boot_pointer a \<Longrightarrow> late_step a"
  by (cases a) auto

lemma bindp_cases:
  assumes "bindp m f w = (r, w')"
  obtains (raised) x where "m w = (Inl x, w')" "r = Inl x"
        | (went_on) v w1 where "m w = (Inr v, w1)" "f v w1 = (r, w')"
  using assms by (auto simp: bindp_def split: prod.splits sum.splits)

lemma upgrade_body_frame:
  assumes "upgrade_body e it il dd rb bc bl w = (r, w')"
  shows "\<exists>acts. trace w' = trace w @ acts
          \<and> (file_uploaded (dev w') \<longrightarrow> file_uploaded (dev w) \<or>
                 (space_result e = Inr True \<and> transfer_result e = None \<and> verify_result e = Inr True
                   \<and> TransferFile \<in> set acts \<and> VerifyFile \<in> set acts))
          \<and> (\<not> file_uploaded (dev w') \<longrightarrow> (\<forall>a \<in> set acts. \<not> late_step a))"
proof -
  from assms have b: "bindp (connect_stage e) (\<lambda>connection.
     bindp (backup_stage e bc bl) (\<lambda>_.
     bindp (upload_stage e il dd) (\<lambda>_.
     boot_stage e it il dd rb))) w = (r, w')"
    by (simp add: upgrade_body_def)
  from b show ?thesis
  proof (cases rule: bindp_cases)
    case (raised x)
    from connect_stage_frame[OF raised(1)] show ?thesis
      by auto
  next
    case (went_on q w1)
    note f1 = connect_stage_frame[OF went_on(1)]
    from went_on(2) show ?thesis
    proof (cases rule: bindp_cases)
      case (raised x)
      from f1 backup_stage_frame[OF raised(1)] show ?thesis
        by auto
    next
      case (went_on u w2)
      note f2 = backup_stage_frame[OF went_on(1)]
      from went_on(2) show ?thesis
      proof (cases rule: bindp_cases)
        case (raised x)
        from f1 f2 upload_stage_frame[OF raised(1)] show ?thesis
          by auto
      next
        case (went_on u3 w3)
        note f3 = upload_stage_frame[OF went_on(1)]
        note f4 = boot_stage_frame[OF went_on(2)]
        from f1 f2 f3 f4 show ?thesis
          by auto
      qed
    qed
  qed
qed

lemma upgrade_asa_frame:
  assumes "upgrade_asa e it il dd rb bc bl w = (res, w')"
  obtains r wb where "upgrade_body e it il dd rb bc bl w = (r, wb)"
    and "trace w' = trace wb" and "file_uploaded (dev w') = file_uploaded (dev wb)"
    and "error (dev w') = error (dev wb)" and "scp_on w' = scp_on wb"
proof -
  obtain r wb where b: "upgrade_body e it il dd rb bc bl w = (r, wb)"
    by (cases "upgrade_body e it il dd rb bc bl w") auto
  with assms have "trace w' = trace wb \<and> file_uploaded (dev w') = file_uploaded (dev wb)
      \<and> error (dev w') = error (dev wb) \<and> scp_on w' = scp_on wb"
    by (auto simp: upgrade_asa_def Let_def split: sum.splits if_splits)
  with b that show ?thesis by blast
qed

lemma upgrade_body_connected:
  assumes "upgrade_body e it il dd rb bc bl w = (r, w')"
  shows "case fst (connect_to_device e (ip_address (dev w)) (credentials (dev w)) True
                     (TypeList [''cisco_asa'']) None w) of
           Inl x \<Rightarrow> r = Inl x \<and> dev w' = dev w
         | Inr q \<Rightarrow> connected (dev w')"
proof -
  obtain r0 w0 where c: "connect_to_device e (ip_address (dev w)) (credentials (dev w)) True
                     (TypeList [''cisco_asa'']) None w = (r0, w0)"
    by (cases "connect_to_device e (ip_address (dev w)) (credentials (dev w)) True
                     (TypeList [''cisco_asa'']) None w") auto
  from connect_frame[OF c] have d0: "dev w0 = dev w" by simp
  from assms have b: "bindp (connect_stage e) (\<lambda>connection.
     bindp (backup_stage e bc bl) (\<lambda>_.
     bindp (upload_stage e il dd) (\<lambda>_.
     boot_stage e it il dd rb))) w = (r, w')"
    by (simp add: upgrade_body_def)
  from b show ?thesis
  proof (cases rule: bindp_cases)
    case (raised x)
    with c d0 show ?thesis
      by (auto simp: connect_stage_eq split: sum.splits)
  next
    case (went_on q w1)
    with c have r0: "r0 = Inr q" and c1: "connected (dev w1)"
      by (auto simp: connect_stage_eq split: sum.splits)
    from went_on(2) have "connected (dev w')"
    proof (cases rule: bindp_cases)
      case (raised x)
      from backup_stage_frame[OF raised(1)] c1 show ?thesis by simp
    next
      case (went_on u w2)
      from backup_stage_frame[OF went_on(1)] c1 have c2: "connected (dev w2)" by simp
      from went_on(2) show ?thesis
      proof (cases rule: bindp_cases)
        case (raised x)
        from upload_stage_frame[OF raised(1)] c2 show ?thesis by simp
      next
        case (went_on u3 w3)
        from upload_stage_frame[OF went_on(1)] c2 boot_stage_frame[OF went_on(2)]
        show ?thesis by simp
      qed
    qed
    with c r0 show ?thesis by simp
  qed
qed

lemma upgrade_body_none:
  assumes "upgrade_body e it il dd rb bc bl w = (Inr v, w')"
  shows "v = None"
proof -
  from assms have b: "bindp (connect_stage e) (\<lambda>connection.
     bindp (backup_stage e bc bl) (\<lambda>_.
     bindp (upload_stage e il dd) (\<lambda>_.
     boot_stage e it il dd rb))) w = (Inr v, w')"
    by (simp add: upgrade_body_def)
  from b show ?thesis
  proof (cases rule: bindp_cases)
    case (went_on q w1)
    from went_on(2) show ?thesis
    proof (cases rule: bindp_cases)
      case (went_on u w2)
      from went_on(2) show ?thesis
      proof (cases rule: bindp_cases)
        case (went_on u3 w3)
        from boot_stage_frame[OF went_on(2)] show ?thesis by simp
      qed simp
    qed simp
  qed simp
qed

section \<open>Runs on the concrete appliance\<close>

lemmas stage_defs = upgrade_asa_def upgrade_body_def connect_stage_def backup_stage_def
  upload_stage_def boot_stage_def reboot_stage_def transfer_body_def with_FileTransfer_def
  backup_config_def strptime_format_only_def ping_def is_the_literal_def handled_def
  start_def

lemma lab_env_fields:
  "connect_result lab_env = (\<lambda>p. None)" "enable_result lab_env = (\<lambda>p. None)"
  "prompt_result lab_env = Inr ''ciscoasa#''" "command_result lab_env = (\<lambda>c. Inr [])"
  "config_result lab_env = (\<lambda>c. None)" "save_result lab_env = None"
  "is_dir lab_env = (\<lambda>l. l = ''/backups'')" "ft_open_result lab_env = None"
  "space_result lab_env = Inr True" "transfer_result lab_env = None"
  "verify_result lab_env = Inr True" "ping_status lab_env = (\<lambda>h. 1)"
  by (simp_all add: lab_env_def)

lemma connect_first_try:
  assumes "connect_result e = (\<lambda>p. None)" and "enable_result e = (\<lambda>p. None)"
  shows "connect_to_device e ''10.0.0.1'' (CredList [lab_credential]) True (TypeList [''cisco_asa'']) None w
     = (Inr lab_params, w\<lparr>trace := trace w @ [ConnectHandler lab_params, Enable]\<rparr>)"
  using assms
  by (simp add: connect_to_device_def attempt_def prog_defs lab_credential_def
        lab_params_def set_credential_def Let_def)

lemmas lab_simps = stage_defs prog_defs lab_device_def Device_init_def connect_first_try
  lab_env_fields scp_line_def Let_def

lemma path_name_asdm: "path_name ''/tmp/asdm-741.bin'' = ''asdm-741.bin''"
  by (simp add: path_name_def)

lemma path_name_asa: "path_name ''/tmp/asa.bin'' = ''asa.bin''"
  by (simp add: path_name_def)

lemma lower_asdm: "lower ''asdm'' = ''asdm''"
  by (simp add: lower_def lower_char_def)

lemma lower_ASA: "lower ''ASA'' = ''asa''"
  by code_simp

lemma lab_run_asdm:
  "upgrade_asa lab_env ''asdm'' ''/tmp/asdm-741.bin'' ''disk0:'' False False None (start lab_device scp)
   = (Returned None,
      \<lparr> dev = lab_device\<lparr>connected := True, name := ''ciscoasa'', file_uploaded := True\<rparr>,
         scp_on = False,
         trace = [ConnectHandler lab_params, Enable, FindPrompt,
                  SendCommand ''sh run | i ssh scopy enable'', SendConfigSet [''ssh scopy enable''],
                  FileTransferOpen ''/tmp/asdm-741.bin'' ''asdm-741.bin'' ''disk0:'',
                  VerifySpaceAvailable, TransferFile, VerifyFile, FileTransferClose,
                  SendConfigSet [''no ssh scopy enable''],
                  SendConfigSet [''asdm image disk0:/asdm-741.bin''], SaveConfig] \<rparr>)"
  by (simp add: lab_simps path_name_asdm lower_asdm)

lemma lab_run_reboot:
  "upgrade_asa lab_env ''ASA'' ''/tmp/asa.bin'' ''disk0:'' True False None (start lab_device False)
   = (Raised (AttributeError ''send_confg_set''),
      \<lparr> dev = lab_device\<lparr>connected := True, name := ''ciscoasa'', file_uploaded := True\<rparr>,
         scp_on = False,
         trace = [ConnectHandler lab_params, Enable, FindPrompt,
                  SendCommand ''sh run | i ssh scopy enable'', SendConfigSet [''ssh scopy enable''],
                  FileTransferOpen ''/tmp/asa.bin'' ''asa.bin'' ''disk0:'',
                  VerifySpaceAvailable, TransferFile, VerifyFile, FileTransferClose,
                  SendConfigSet [''no ssh scopy enable''],
                  SendConfigSet [''boot system disk0:/asa.bin''], SaveConfig,
                  SendConfgSet [''reboot'']] \<rparr>)"
  by (simp add: lab_simps path_name_asa lower_ASA)

lemma lab_run_backup_nowhere:
  "upgrade_asa lab_env ''ASA'' ''/tmp/asa.bin'' ''disk0:'' False True (Some ''/nowhere'') (start lab_device False)
   = (Returned (Some (lab_device\<lparr>connected := False, name := ''ciscoasa''\<rparr>)),
      \<lparr> dev = lab_device\<lparr>connected := False, name := ''ciscoasa''\<rparr>,
         scp_on = False,
         trace = [ConnectHandler lab_params, Enable, FindPrompt,
                  SendCommand ''sh run'', IsDir ''/nowhere''] \<rparr>)"
  by (simp add: lab_simps)

lemma lab_run_unverified:
  "upgrade_asa unverified_env ''ASA'' ''/tmp/asa.bin'' ''disk0:'' True False None (start lab_device False)
   = (Returned None,
      \<lparr> dev = lab_device\<lparr>connected := True, name := ''ciscoasa'', error := ''File transfer verifier failed''\<rparr>,
         scp_on = False,
         trace = [ConnectHandler lab_params, Enable, FindPrompt,
                  SendCommand ''sh run | i ssh scopy enable'', SendConfigSet [''ssh scopy enable''],
                  FileTransferOpen ''/tmp/asa.bin'' ''asa.bin'' ''disk0:'',
                  VerifySpaceAvailable, TransferFile, VerifyFile, FileTransferClose,
                  SendConfigSet [''no ssh scopy enable'']] \<rparr>)"
  by (simp add: lab_simps unverified_env_def path_name_asa)

lemma lab_run_stalled:
  "upgrade_asa stalled_env ''ASA'' ''/tmp/asa.bin'' ''disk0:'' False False None (start lab_device False)
   = (Raised (OtherError ''transfer''),
      \<lparr> dev = lab_device\<lparr>connected := True, name := ''ciscoasa''\<rparr>,
         scp_on = True,
         trace = [ConnectHandler lab_params, Enable, FindPrompt,
                  SendCommand ''sh run | i ssh scopy enable'', SendConfigSet [''ssh scopy enable''],
                  FileTransferOpen ''/tmp/asa.bin'' ''asa.bin'' ''disk0:'',
                  VerifySpaceAvailable, TransferFile, FileTransferClose] \<rparr>)"
  by (simp add: lab_simps stalled_env_def path_name_asa)

lemma lab_run_scp_enabled:
  "upgrade_asa scp_enabled_env ''asdm'' ''/tmp/asdm-741.bin'' ''disk0:'' False False None (start lab_device True)
   = (Returned None,
      \<lparr> dev = lab_device\<lparr>connected := True, name := ''ciscoasa'', file_uploaded := True\<rparr>,
         scp_on = False,
         trace = [ConnectHandler lab_params, Enable, FindPrompt,
                  SendCommand ''sh run | i ssh scopy enable'', SendConfigSet [''ssh scopy enable''],
                  FileTransferOpen ''/tmp/asdm-741.bin'' ''asdm-741.bin'' ''disk0:'',
                  VerifySpaceAvailable, TransferFile, VerifyFile, FileTransferClose,
                  SendConfigSet [''no ssh scopy enable''],
                  SendConfigSet [''asdm image disk0:/asdm-741.bin''], SaveConfig] \<rparr>)"
  by (simp add: lab_simps scp_enabled_env_def path_name_asdm lower_asdm)

lemma lab_body_asdm:
  "fst (upgrade_body lab_env ''asdm'' ''/tmp/asdm-741.bin'' ''disk0:'' False False None
          (start lab_device False)) = Inr None"
  by (simp add: lab_simps path_name_asdm lower_asdm)

lemma lab_body_unverified:
  "fst (upgrade_body unverified_env ''ASA'' ''/tmp/asa.bin'' ''disk0:'' True False None
          (start lab_device False)) = Inr None"
  by (simp add: lab_simps unverified_env_def path_name_asa)

lemma lab_connect_stage:
  "connect_stage lab_env (start lab_device False)
     = (Inr lab_params,
        \<lparr> dev = lab_device\<lparr>connected := True, name := ''ciscoasa''\<rparr>, scp_on = False,
           trace = [ConnectHandler lab_params, Enable, FindPrompt] \<rparr>)"
  by (simp add: lab_simps)

section \<open>A pool of one worker\<close>

text \<open>
  With one worker and one item the pool walks through a fixed chain of states, whatever
  the schedule; steps given to a thread that does not exist change nothing.
\<close>

lemma join_through:
  assumes "unfinished_tasks p \<noteq> 0"
    and "\<And>i. worker_step f i p = p \<or> worker_step f i p = p'"
    and "\<And>sched. join f sched p' \<in> S"
    and "None \<in> S"
  shows "join f sched p \<in> S"
proof (induction sched)
  case Nil
  from assms(1,4) show ?case by simp
next
  case (Cons i sched)
  from assms(2)[of i] show ?case
  proof
    assume "worker_step f i p = p"
    with assms(1) Cons.IH show ?thesis by simp
  next
    assume "worker_step f i p = p'"
    with assms(1) assms(3)[of sched] show ?thesis by simp
  qed
qed

lemma single_worker_output:
  fixes f :: "'a \<Rightarrow> exn + 'b"
  assumes "f x = Inr y"
  shows "run f 1 [x] sched \<in> {None, Some [y]}"
proof -
  let ?s4 = "\<lparr> input_queue = [], unfinished_tasks = 0, output_queue = [y], workers = [AtTest] \<rparr> :: ('a, 'b) pool"
  let ?s3 = "\<lparr> input_queue = [], unfinished_tasks = 1, output_queue = [y], workers = [AtTaskDone] \<rparr> :: ('a, 'b) pool"
  let ?s2 = "\<lparr> input_queue = [], unfinished_tasks = 1, output_queue = [], workers = [Holding x] \<rparr> :: ('a, 'b) pool"
  let ?s1 = "\<lparr> input_queue = [x], unfinished_tasks = 1, output_queue = [], workers = [AtGet] \<rparr> :: ('a, 'b) pool"
  let ?s0 = "\<lparr> input_queue = [x], unfinished_tasks = 1, output_queue = [], workers = [AtTest] \<rparr> :: ('a, 'b) pool"
  have j4: "join f sched ?s4 \<in> {None, Some [y]}" for sched
    by (cases sched) simp_all
  have j3: "join f sched ?s3 \<in> {None, Some [y]}" for sched
    by (rule join_through[where p' = ?s4]) (simp, simp add: worker_step_def, rule j4, simp)
  have j2: "join f sched ?s2 \<in> {None, Some [y]}" for sched
    by (rule join_through[where p' = ?s3]) (simp, simp add: worker_step_def assms, rule j3, simp)
  have j1: "join f sched ?s1 \<in> {None, Some [y]}" for sched
    by (rule join_through[where p' = ?s2]) (simp, simp add: worker_step_def, rule j2, simp)
  have j0: "join f sched ?s0 \<in> {None, Some [y]}" for sched
    by (rule join_through[where p' = ?s1]) (simp, simp add: worker_step_def, rule j1, simp)
  from j0 show ?thesis by (simp add: run_def)
qed

lemma single_worker_dies:
  fixes f :: "'a \<Rightarrow> exn + 'b"
  assumes "f x = Inl err"
  shows "run f 1 [x] sched = None"
proof -
  let ?s3 = "\<lparr> input_queue = [], unfinished_tasks = 1, output_queue = [], workers = [Died err] \<rparr> :: ('a, 'b) pool"
  let ?s2 = "\<lparr> input_queue = [], unfinished_tasks = 1, output_queue = [], workers = [Holding x] \<rparr> :: ('a, 'b) pool"
  let ?s1 = "\<lparr> input_queue = [x], unfinished_tasks = 1, output_queue = [], workers = [AtGet] \<rparr> :: ('a, 'b) pool"
  let ?s0 = "\<lparr> input_queue = [x], unfinished_tasks = 1, output_queue = [], workers = [AtTest] \<rparr> :: ('a, 'b) pool"
  have j3: "join f sched ?s3 \<in> {None}" for sched
    by (induction sched) (simp_all add: worker_step_def)
  have j2: "join f sched ?s2 \<in> {None}" for sched
    by (rule join_through[where p' = ?s3]) (simp, simp add: worker_step_def assms, rule j3, simp)
  have j1: "join f sched ?s1 \<in> {None}" for sched
    by (rule join_through[where p' = ?s2]) (simp, simp add: worker_step_def, rule j2, simp)
  have j0: "join f sched ?s0 \<in> {None}" for sched
    by (rule join_through[where p' = ?s1]) (simp, simp add: worker_step_def, rule j1, simp)
  from j0 show ?thesis by (simp add: run_def)
qed

section \<open>The upload gate (C1)\<close>

text \<open>
  Claim C1. For a device whose \<open>file_uploaded\<close> flag is clear when the run starts (as
  \<open>Device.__init__\<close> leaves it): the flag is set at the end only if there was room, the
  transfer was made and returned, and the verification returned true; and whenever the
  space check, the transfer or the verification fails, or the flag stays clear for any
  reason, no later step is attempted: no boot-pointer command, no \<open>save_config\<close>, no
  reboot call, wait or probe occurs in the trace.
\<close>

theorem upload_gates_later_steps:
  assumes "\<not> file_uploaded d"
    and "upgrade_asa e it il dd rb bc bl (start d scp) = (res, w')"
  shows "(file_uploaded (dev w') \<longrightarrow>
            space_result e = Inr True \<and> transfer_result e = None \<and> verify_result e = Inr True
            \<and> TransferFile \<in> set (trace w') \<and> VerifyFile \<in> set (trace w'))
       \<and> (space_result e \<noteq> Inr True \<or> transfer_result e \<noteq> None \<or> verify_result e \<noteq> Inr True \<longrightarrow>
            \<not> file_uploaded (dev w') \<and> (\<forall>a \<in> set (trace w'). \<not> late_step a))
       \<and> (\<not> file_uploaded (dev w') \<longrightarrow> (\<forall>a \<in> set (trace w'). \<not> late_step a))"
proof -
  from assms(2) obtain r wb where b: "upgrade_body e it il dd rb bc bl (start d scp) = (r, wb)"
    and t: "trace w' = trace wb" and f: "file_uploaded (dev w') = file_uploaded (dev wb)"
    by (rule upgrade_asa_frame)
  from upgrade_body_frame[OF b] assms(1) t f show ?thesis
    by (auto simp: start_def)
qed

text \<open>
  The theorem at the appliance whose verification fails, with a reboot requested: the flag
  stays clear and the trace has no later step.
\<close>

theorem upload_gates_later_steps_witness:
  "\<not> file_uploaded lab_device
   \<and> verify_result unverified_env \<noteq> Inr True
   \<and> \<not> file_uploaded (dev (snd (upgrade_asa unverified_env ''ASA'' ''/tmp/asa.bin'' ''disk0:'' True False None (start lab_device False))))
   \<and> filter late_step (trace (snd (upgrade_asa unverified_env ''ASA'' ''/tmp/asa.bin'' ''disk0:'' True False None (start lab_device False)))) = []"
proof -
  have d: "\<not> file_uploaded lab_device"
    by (simp add: lab_device_def Device_init_def)
  have v: "verify_result unverified_env \<noteq> Inr True"
    by (simp add: unverified_env_def)
  from upload_gates_later_steps [OF d lab_run_unverified] d v show ?thesis
    by (simp add: filter_empty_conv lab_run_unverified)
qed

section \<open>The dispatcher (C2)\<close>

text \<open>
  Claim C2 says that \<open>run\<close> returns one finalized device record for each of the N input
  devices. Evaluated for one device and one worker on the concrete appliance: when the
  upgrade succeeds and no reboot is requested, \<open>upgrade_asa\<close> returns \<open>None\<close>, so the
  output is \<open>[None]\<close> under the schedule of four steps, and under no schedule does it hold
  the device; when a reboot is requested the worker dies of the \<open>AttributeError\<close> before
  \<open>task_done()\<close>, and \<open>join\<close> returns under no schedule.
\<close>

theorem pool_output_lacks_device:
  "run (asa_worker (\<lambda>d. lab_env) (\<lambda>d. False) ''asdm'' ''/tmp/asdm-741.bin'' ''disk0:'' False False None)
       1 [lab_device] [0, 0, 0, 0] = Some [None]
   \<and> (\<forall>sched. run (asa_worker (\<lambda>d. lab_env) (\<lambda>d. False) ''asdm'' ''/tmp/asdm-741.bin'' ''disk0:'' False False None)
                  1 [lab_device] sched \<in> {None, Some [None]})
   \<and> (\<forall>sched. run (asa_worker (\<lambda>d. lab_env) (\<lambda>d. False) ''ASA'' ''/tmp/asa.bin'' ''disk0:'' True False None)
                  1 [lab_device] sched = None)"
proof -
  have a: "asa_worker (\<lambda>d. lab_env) (\<lambda>d. False) ''asdm'' ''/tmp/asdm-741.bin'' ''disk0:'' False False None lab_device
             = Inr None"
    by (simp add: asa_worker_def lab_run_asdm)
  have b: "asa_worker (\<lambda>d. lab_env) (\<lambda>d. False) ''ASA'' ''/tmp/asa.bin'' ''disk0:'' True False None lab_device
             = Inl (AttributeError ''send_confg_set'')"
    by (simp add: asa_worker_def lab_run_reboot)
  have one: "run (asa_worker (\<lambda>d. lab_env) (\<lambda>d. False) ''asdm'' ''/tmp/asdm-741.bin'' ''disk0:'' False False None)
       1 [lab_device] [0, 0, 0, 0] = Some [None]"
    by (simp add: run_def worker_step_def a)
  note two = single_worker_output[of "asa_worker (\<lambda>d. lab_env) (\<lambda>d. False) ''asdm'' ''/tmp/asdm-741.bin'' ''disk0:'' False False None" lab_device None, OF a]
  note three = single_worker_dies[of "asa_worker (\<lambda>d. lab_env) (\<lambda>d. False) ''ASA'' ''/tmp/asa.bin'' ''disk0:'' True False None" lab_device "AttributeError ''send_confg_set''", OF b]
  from one two three show ?thesis
    by blast
qed

section \<open>The connected flag (C3)\<close>

text \<open>
  Claim C3, as stated, fails: on the concrete appliance the connector returns a session,
  the backup is asked to write to \<open>/nowhere\<close>, which is no directory, and the run ends
  with \<open>connected\<close> false.
\<close>

theorem backup_failure_clears_connected:
  "fst (connect_to_device lab_env (ip_address lab_device) (credentials lab_device) True
          (TypeList [''cisco_asa'']) None (start lab_device False)) = Inr lab_params
   \<and> \<not> connected (dev (snd (upgrade_asa lab_env ''ASA'' ''/tmp/asa.bin'' ''disk0:'' False True
                                (Some ''/nowhere'') (start lab_device False))))"
  by (simp add: lab_run_backup_nowhere)
     (simp add: lab_device_def Device_init_def connect_first_try lab_env_fields)

text \<open>
  Claim C3, amended. For a device whose \<open>connected\<close> flag is clear when the run starts,
  the flag is set at the end if and only if the connector returned a session and no step of
  the sequence raised a \<open>ConnectionException\<close> or a \<open>ValueError\<close>: both handlers of
  \<open>upgrade_asa\<close> clear the flag, also after a successful connection.
\<close>

theorem connected_reset_by_handlers:
  assumes "\<not> connected d"
  shows "connected (dev (snd (upgrade_asa e it il dd rb bc bl (start d scp))))
     \<longleftrightarrow> (\<exists>q. fst (connect_to_device e (ip_address d) (credentials d) True
                       (TypeList [''cisco_asa'']) None (start d scp)) = Inr q)
         \<and> \<not> (\<exists>x. fst (upgrade_body e it il dd rb bc bl (start d scp)) = Inl x \<and> handled x)"
proof -
  obtain r wb where b: "upgrade_body e it il dd rb bc bl (start d scp) = (r, wb)"
    by (cases "upgrade_body e it il dd rb bc bl (start d scp)") auto
  have s: "dev (start d scp) = d" by (simp add: start_def)
  from upgrade_body_connected[OF b] assms b s show ?thesis
    by (auto simp: upgrade_asa_def Let_def split: sum.splits)
qed

text \<open>
  The theorem at the concrete appliance, where the connector returns a session and nothing
  raises: the flag is set.
\<close>

theorem connected_reset_by_handlers_witness:
  "\<not> connected lab_device
   \<and> connected (dev (snd (upgrade_asa lab_env ''asdm'' ''/tmp/asdm-741.bin'' ''disk0:'' False False None
                            (start lab_device False))))
   \<and> fst (connect_to_device lab_env (ip_address lab_device) (credentials lab_device) True
            (TypeList [''cisco_asa'']) None (start lab_device False)) = Inr lab_params"
proof -
  have d: "\<not> connected lab_device"
    by (simp add: lab_device_def Device_init_def)
  have c: "fst (connect_to_device lab_env (ip_address lab_device) (credentials lab_device) True
            (TypeList [''cisco_asa'']) None (start lab_device False)) = Inr lab_params"
    by (simp add: lab_device_def Device_init_def connect_first_try lab_env_fields)
  from connected_reset_by_handlers [OF d, of lab_env "''asdm''" "''/tmp/asdm-741.bin''" "''disk0:''" False False None False]
    d c lab_body_asdm show ?thesis
    by simp
qed

section \<open>The fallback search (C4)\<close>

text \<open>
  Claim C4. Let the candidates of the search be \<open>pre @ q # post\<close>, every candidate of
  \<open>pre\<close> being rejected for authentication. If the attempt with \<open>q\<close> times out, the
  connector raises \<open>ConnectionException\<close> (\<open>Connection to device timed out\<close>) and the calls
  made are exactly those of \<open>pre\<close> and \<open>q\<close>: no candidate of \<open>post\<close> is tried. If the
  attempt with \<open>q\<close> is rejected for authentication, the next candidate is tried.
\<close>

theorem timeout_aborts_search:
  assumes "truthy creds"
    and "candidates (first_params ipaddr timeout) (type_candidates device_type) (as_list creds) = pre @ q # post"
    and "\<forall>r \<in> set pre. attempt_result e enable_mode r = Inl NetMikoAuthenticationException"
  shows "(attempt_result e enable_mode q = Inl NetMikoTimeoutException \<longrightarrow>
            connect_to_device e ipaddr creds enable_mode device_type timeout w
              = (Inl (ConnectionException ''Connection to device timed out''),
                 w\<lparr>trace := trace w @ concat (map (attempt_calls e enable_mode) (pre @ [q]))\<rparr>))
       \<and> (attempt_result e enable_mode q = Inl NetMikoAuthenticationException \<longrightarrow>
            (\<forall>q' rest. post = q' # rest \<longrightarrow>
              (\<exists>more. trace (snd (connect_to_device e ipaddr creds enable_mode device_type timeout w))
                 = trace w @ concat (map (attempt_calls e enable_mode) (pre @ [q])) @ ConnectHandler q' # more)))"
proof (intro conjI impI allI)
  assume t: "attempt_result e enable_mode q = Inl NetMikoTimeoutException"
  show "connect_to_device e ipaddr creds enable_mode device_type timeout w
              = (Inl (ConnectionException ''Connection to device timed out''),
                 w\<lparr>trace := trace w @ concat (map (attempt_calls e enable_mode) (pre @ [q]))\<rparr>)"
    using assms t
    by (simp add: connect_to_device_search search_rejected_prefix attempt_eq)
next
  fix q' rest
  assume r: "attempt_result e enable_mode q = Inl NetMikoAuthenticationException"
    and p: "post = q' # rest"
  let ?w1 = "w\<lparr>trace := trace w @ concat (map (attempt_calls e enable_mode) (pre @ [q]))\<rparr>"
  have all: "\<forall>r \<in> set (pre @ [q]). attempt_result e enable_mode r = Inl NetMikoAuthenticationException"
    using assms(3) r by simp
  have s: "search e enable_mode ((pre @ [q]) @ q' # rest) w = search e enable_mode (q' # rest) ?w1"
    by (rule search_rejected_prefix[OF all])
  obtain r2 w2 where s2: "search e enable_mode rest (?w1\<lparr>trace := trace ?w1 @ attempt_calls e enable_mode q'\<rparr>) = (r2, w2)"
    by (cases "search e enable_mode rest (?w1\<lparr>trace := trace ?w1 @ attempt_calls e enable_mode q'\<rparr>)") auto
  from search_frame[OF s2] obtain acts where
    acts: "trace w2 = trace ?w1 @ attempt_calls e enable_mode q' @ acts" by auto
  have c: "\<exists>m. attempt_calls e enable_mode q' = ConnectHandler q' # m"
    by (simp add: attempt_calls_def)
  have "\<exists>more. trace (snd (search e enable_mode (q' # rest) ?w1))
          = trace w @ concat (map (attempt_calls e enable_mode) (pre @ [q])) @ ConnectHandler q' # more"
    using s2 acts c
    by (auto simp: attempt_eq split: sum.splits exn.splits)
  then have "\<exists>more. trace (snd (search e enable_mode (pre @ q # post) w))
          = trace w @ concat (map (attempt_calls e enable_mode) (pre @ [q])) @ ConnectHandler q' # more"
    using s p by simp
  moreover have "trace (snd (connect_to_device e ipaddr creds enable_mode device_type timeout w))
      = trace (snd (search e enable_mode (pre @ q # post) w))"
    using assms(1,2)
    by (auto simp: connect_to_device_search split: prod.splits sum.splits option.splits exn.splits)
  ultimately show "\<exists>more. trace (snd (connect_to_device e ipaddr creds enable_mode device_type timeout w))
                 = trace w @ concat (map (attempt_calls e enable_mode) (pre @ [q])) @ ConnectHandler q' # more"
    by simp
qed

text \<open>
  The theorem with two credential sets: at the unreachable appliance the first attempt is
  the only call; at the appliance that rejects \<open>admin\<close> the second set is tried next.
\<close>

theorem timeout_aborts_search_witness:
  "connect_to_device unreachable_env ''10.0.0.1'' (CredList [lab_credential, lab_credential2]) True
       (TypeList [''cisco_asa'']) None (start lab_device False)
     = (Inl (ConnectionException ''Connection to device timed out''),
        (start lab_device False)\<lparr>trace := [ConnectHandler lab_params]\<rparr>)
   \<and> (\<exists>more. trace (snd (connect_to_device picky_env ''10.0.0.1'' (CredList [lab_credential, lab_credential2]) True
                 (TypeList [''cisco_asa'']) None (start lab_device False)))
         = ConnectHandler lab_params # ConnectHandler lab_params2 # more)"
proof -
  have c: "candidates (first_params ''10.0.0.1'' None) (type_candidates (TypeList [''cisco_asa'']))
             (as_list (CredList [lab_credential, lab_credential2])) = [] @ lab_params # [lab_params2]"
    by (simp add: first_params_def set_credential_def lab_credential_def lab_credential2_def
          lab_params_def lab_params2_def)
  have t: "truthy (CredList [lab_credential, lab_credential2])" by simp
  have n: "\<forall>r \<in> set []. attempt_result e True r = Inl NetMikoAuthenticationException" for e
    by simp
  have u: "attempt_result unreachable_env True lab_params = Inl NetMikoTimeoutException"
    by (simp add: attempt_result_def unreachable_env_def)
  have k: "attempt_result picky_env True lab_params = Inl NetMikoAuthenticationException"
    by (simp add: attempt_result_def picky_env_def lab_params_def)
  have cu: "attempt_calls unreachable_env True lab_params = [ConnectHandler lab_params]"
    by (simp add: attempt_calls_def unreachable_env_def)
  have ck: "attempt_calls picky_env True lab_params = [ConnectHandler lab_params]"
    by (simp add: attempt_calls_def picky_env_def lab_params_def)
  from timeout_aborts_search [OF t c n, of unreachable_env "start lab_device False"] u cu
  have one: "connect_to_device unreachable_env ''10.0.0.1'' (CredList [lab_credential, lab_credential2]) True
       (TypeList [''cisco_asa'']) None (start lab_device False)
     = (Inl (ConnectionException ''Connection to device timed out''),
        (start lab_device False)\<lparr>trace := [ConnectHandler lab_params]\<rparr>)"
    by (simp add: start_def)
  from timeout_aborts_search [OF t c n, of picky_env "start lab_device False"] k ck
  have two: "\<exists>more. trace (snd (connect_to_device picky_env ''10.0.0.1'' (CredList [lab_credential, lab_credential2]) True
                 (TypeList [''cisco_asa'']) None (start lab_device False)))
         = ConnectHandler lab_params # ConnectHandler lab_params2 # more"
    by (simp add: start_def)
  from one two show ?thesis by simp
qed

section \<open>The SCP setting (C5)\<close>

text \<open>
  Claim C5 says that the SCP setting after the upload step equals the setting before it.
  Evaluated on the concrete appliance: with SCP enabled beforehand (the appliance answers
  the query with \<open>ssh scopy enable\<close>) the run enables it again, uploads, and disables
  it, so it ends disabled; and with SCP disabled beforehand and a transfer that raises,
  the run ends with SCP left enabled.
\<close>

theorem scp_setting_not_restored:
  "scp_on (start lab_device True)
   \<and> command_result scp_enabled_env ''sh run | i ssh scopy enable'' = Inr ''ssh scopy enable''
   \<and> fst (upgrade_asa scp_enabled_env ''asdm'' ''/tmp/asdm-741.bin'' ''disk0:'' False False None
            (start lab_device True)) = Returned None
   \<and> trace (snd (upgrade_asa scp_enabled_env ''asdm'' ''/tmp/asdm-741.bin'' ''disk0:'' False False None
            (start lab_device True)))
       = [ConnectHandler lab_params, Enable, FindPrompt,
          SendCommand ''sh run | i ssh scopy enable'', SendConfigSet [''ssh scopy enable''],
          FileTransferOpen ''/tmp/asdm-741.bin'' ''asdm-741.bin'' ''disk0:'',
          VerifySpaceAvailable, TransferFile, VerifyFile, FileTransferClose,
          SendConfigSet [''no ssh scopy enable''],
          SendConfigSet [''asdm image disk0:/asdm-741.bin''], SaveConfig]
   \<and> scp_on (snd (upgrade_asa scp_enabled_env ''asdm'' ''/tmp/asdm-741.bin'' ''disk0:'' False False None
            (start lab_device True))) = False
   \<and> scp_on (start lab_device False) = False
   \<and> fst (upgrade_asa stalled_env ''ASA'' ''/tmp/asa.bin'' ''disk0:'' False False None
            (start lab_device False)) = Raised (OtherError ''transfer'')
   \<and> scp_on (snd (upgrade_asa stalled_env ''ASA'' ''/tmp/asa.bin'' ''disk0:'' False False None
            (start lab_device False)))"
  by (simp add: lab_run_scp_enabled lab_run_stalled) (simp add: start_def scp_enabled_env_def)

section \<open>The boot pointer (C6)\<close>

text \<open>
  Claim C6, as stated, fails: on the concrete appliance the upload succeeds and the one
  boot-pointer command issued names \<open>disk0:/asdm-741.bin\<close>, with a \<open>/\<close> between the
  drive and the file name, which is not the concatenation of the two.
\<close>

theorem boot_pointer_without_separator_absent:
  "file_uploaded (dev (snd (upgrade_asa lab_env ''asdm'' ''/tmp/asdm-741.bin'' ''disk0:'' False False None
                              (start lab_device False))))
   \<and> filter boot_pointer (trace (snd (upgrade_asa lab_env ''asdm'' ''/tmp/asdm-741.bin'' ''disk0:'' False False None
                              (start lab_device False))))
       = [SendConfigSet [''asdm image disk0:/asdm-741.bin'']]
   \<and> SendConfigSet [''asdm image '' @ ''disk0:'' @ path_name ''/tmp/asdm-741.bin'']
       \<noteq> SendConfigSet [''asdm image disk0:/asdm-741.bin'']"
  by (simp add: lab_run_asdm path_name_asdm)

text \<open>
  Claim C6, amended. For a device whose \<open>file_uploaded\<close> flag is clear at the start, whose
  upload succeeds, and whose SCP setting is then put back without an exception: the target
  of the boot-pointer command is \<open>dest_drive\<close>, then \<open>/\<close>, then the base name of the
  local image path; the command is \<open>boot system\<close> when the image type is \<open>asa\<close> and
  \<open>asdm image\<close> when it is \<open>asdm\<close> (compared in lower case); and no other boot-pointer
  command is issued.
\<close>

theorem boot_pointer_target:
  assumes "\<not> file_uploaded d"
    and "upgrade_asa e it il dd rb bc bl (start d scp) = (res, w')"
    and "file_uploaded (dev w')"
    and "config_result e [''no ssh scopy enable''] = None"
  shows "(lower it = ''asa'' \<longrightarrow> SendConfigSet [''boot system '' @ dd @ ''/'' @ path_name il] \<in> set (trace w'))
     \<and> (lower it = ''asdm'' \<longrightarrow> SendConfigSet [''asdm image '' @ dd @ ''/'' @ path_name il] \<in> set (trace w'))
     \<and> (\<forall>a \<in> set (trace w'). boot_pointer a \<longrightarrow>
           (lower it = ''asa'' \<and> a = SendConfigSet [''boot system '' @ dd @ ''/'' @ path_name il])
         \<or> (lower it = ''asdm'' \<and> a = SendConfigSet [''asdm image '' @ dd @ ''/'' @ path_name il]))"
proof -
  from assms(2) obtain r wb where b0: "upgrade_body e it il dd rb bc bl (start d scp) = (r, wb)"
    and t: "trace w' = trace wb" and f: "file_uploaded (dev w') = file_uploaded (dev wb)"
    by (rule upgrade_asa_frame)
  from assms(3) f have fb: "file_uploaded (dev wb)" by simp
  have s: "\<not> file_uploaded (dev (start d scp))" "trace (start d scp) = []"
    using assms(1) by (simp_all add: start_def)
  from b0 have b: "bindp (connect_stage e) (\<lambda>connection.
     bindp (backup_stage e bc bl) (\<lambda>_.
     bindp (upload_stage e il dd) (\<lambda>_.
     boot_stage e it il dd rb))) (start d scp) = (r, wb)"
    by (simp add: upgrade_body_def)
  have goal: "(lower it = ''asa'' \<longrightarrow> SendConfigSet [''boot system '' @ dd @ ''/'' @ path_name il] \<in> set (trace wb))
     \<and> (lower it = ''asdm'' \<longrightarrow> SendConfigSet [''asdm image '' @ dd @ ''/'' @ path_name il] \<in> set (trace wb))
     \<and> (\<forall>a \<in> set (trace wb). boot_pointer a \<longrightarrow>
           (lower it = ''asa'' \<and> a = SendConfigSet [''boot system '' @ dd @ ''/'' @ path_name il])
         \<or> (lower it = ''asdm'' \<and> a = SendConfigSet [''asdm image '' @ dd @ ''/'' @ path_name il]))"
    using b
  proof (cases rule: bindp_cases)
    case (raised x)
    from connect_stage_frame[OF raised(1)] s fb show ?thesis by simp
  next
    case (went_on q w1)
    from connect_stage_frame[OF went_on(1)] s have
      f1: "\<not> file_uploaded (dev w1)" "\<forall>a \<in> set (trace w1). \<not> late_step a"
      by auto
    from went_on(2) show ?thesis
    proof (cases rule: bindp_cases)
      case (raised x)
      from backup_stage_frame[OF raised(1)] f1 fb show ?thesis by simp
    next
      case (went_on u w2)
      from backup_stage_frame[OF went_on(1)] f1 have
        f2: "\<not> file_uploaded (dev w2)" "\<forall>a \<in> set (trace w2). \<not> late_step a"
        by auto
      from went_on(2) show ?thesis
      proof (cases rule: bindp_cases)
        case (raised x)
        from upload_stage_done[OF raised(1) f2(1) fb assms(4)] raised(2) show ?thesis by simp
      next
        case (went_on u3 w3)
        from upload_stage_frame[OF went_on(1)] f2 have
          f3: "\<forall>a \<in> set (trace w3). \<not> late_step a"
          by auto
        from boot_stage_frame[OF went_on(2)] fb have f4: "file_uploaded (dev w3)" by auto
        from boot_stage_command[OF went_on(2) f4] obtain acts where
          a: "trace wb = trace w3 @ acts"
          and a1: "lower it = ''asa'' \<longrightarrow> SendConfigSet [''boot system '' @ dd @ ''/'' @ path_name il] \<in> set acts"
          and a2: "lower it = ''asdm'' \<longrightarrow> SendConfigSet [''asdm image '' @ dd @ ''/'' @ path_name il] \<in> set acts"
          and a3: "\<forall>a \<in> set acts. boot_pointer a \<longrightarrow>
              (lower it = ''asa'' \<and> a = SendConfigSet [''boot system '' @ dd @ ''/'' @ path_name il])
            \<or> (lower it = ''asdm'' \<and> a = SendConfigSet [''asdm image '' @ dd @ ''/'' @ path_name il])"
          by blast
        have n: "\<forall>a \<in> set (trace w3). \<not> boot_pointer a"
          using f3 late_boot by blast
        have m: "set (trace wb) = set (trace w3) \<union> set acts"
          using a by simp
        show ?thesis
          unfolding m using a1 a2 a3 n by blast
      qed
    qed
  qed
  with t show ?thesis by simp
qed

text \<open>
  The theorem at the concrete appliance with the image type \<open>asdm\<close>.
\<close>

theorem boot_pointer_target_witness:
  "\<not> file_uploaded lab_device
   \<and> config_result lab_env [''no ssh scopy enable''] = None
   \<and> lower ''asdm'' = ''asdm''
   \<and> file_uploaded (dev (snd (upgrade_asa lab_env ''asdm'' ''/tmp/asdm-741.bin'' ''disk0:'' False False None
                              (start lab_device False))))
   \<and> SendConfigSet [''asdm image '' @ ''disk0:'' @ ''/'' @ path_name ''/tmp/asdm-741.bin'']
       \<in> set (trace (snd (upgrade_asa lab_env ''asdm'' ''/tmp/asdm-741.bin'' ''disk0:'' False False None
                              (start lab_device False))))"
proof -
  have d: "\<not> file_uploaded lab_device"
    by (simp add: lab_device_def Device_init_def)
  have u: "file_uploaded (dev (snd (upgrade_asa lab_env ''asdm'' ''/tmp/asdm-741.bin'' ''disk0:'' False False None
                              (start lab_device False))))"
    by (simp add: lab_run_asdm)
  have c: "config_result lab_env [''no ssh scopy enable''] = None"
    by (simp add: lab_env_fields)
  have r: "upgrade_asa lab_env ''asdm'' ''/tmp/asdm-741.bin'' ''disk0:'' False False None (start lab_device False)
     = (fst (upgrade_asa lab_env ''asdm'' ''/tmp/asdm-741.bin'' ''disk0:'' False False None (start lab_device False)),
        snd (upgrade_asa lab_env ''asdm'' ''/tmp/asdm-741.bin'' ''disk0:'' False False None (start lab_device False)))"
    by simp
  from boot_pointer_target [OF d r u c] d u c lower_asdm show ?thesis
    by simp
qed

section \<open>A backup destination that is no directory (C7)\<close>

text \<open>
  Claim C7, as stated, fails in its last part: on the concrete appliance, with the backup
  destination \<open>/nowhere\<close>, the device that is returned has an empty \<open>error\<close>.
\<close>

theorem backup_failure_leaves_error_empty:
  "fst (upgrade_asa lab_env ''ASA'' ''/tmp/asa.bin'' ''disk0:'' False True (Some ''/nowhere'')
          (start lab_device False))
     = Returned (Some (lab_device\<lparr>connected := False, name := ''ciscoasa''\<rparr>))
   \<and> error (lab_device\<lparr>connected := False, name := ''ciscoasa''\<rparr>) = []
   \<and> error (dev (snd (upgrade_asa lab_env ''ASA'' ''/tmp/asa.bin'' ''disk0:'' False True (Some ''/nowhere'')
          (start lab_device False)))) = []"
  by (simp add: lab_run_backup_nowhere) (simp add: lab_device_def Device_init_def)

text \<open>
  Claim C7, amended. When the connection stage has succeeded, the backup is requested, the
  running configuration is retrieved and the destination is not a directory: the backup
  writer raises \<open>ValueError\<close> (\<open>Location is not a directory\<close>), the run ends there, before
  any call of the upload step, and returns the device with \<open>connected\<close> cleared and with
  its \<open>error\<close> message as it was at the start (the handler logs the exception and stores
  no message).
\<close>

theorem backup_not_directory_halts:
  assumes "connect_stage e (start d scp) = (Inr q, w1)"
    and "command_result e ''sh run'' = Inr config"
    and "\<not> is_dir e loc"
  shows "upgrade_asa e it il dd rb True (Some loc) (start d scp)
           = (Returned (Some ((dev w1)\<lparr>connected := False\<rparr>)),
              w1\<lparr>dev := (dev w1)\<lparr>connected := False\<rparr>,
                 trace := trace w1 @ [SendCommand ''sh run'', IsDir loc]\<rparr>)
       \<and> fst (backup_stage e True (Some loc) w1)
           = Inl (ValueError (''Location is not a directory - '' @ loc))
       \<and> error (dev w1) = error d
       \<and> filter upload_call (trace w1 @ [SendCommand ''sh run'', IsDir loc]) = []"
proof -
  note bs = backup_stage_not_dir[OF assms(2,3), of w1]
  from connect_stage_frame[OF assms(1)] have
    f: "error (dev w1) = error d" "\<forall>a \<in> set (trace w1). \<not> upload_call a"
    by (auto simp: start_def)
  have "upgrade_asa e it il dd rb True (Some loc) (start d scp)
           = (Returned (Some ((dev w1)\<lparr>connected := False\<rparr>)),
              w1\<lparr>dev := (dev w1)\<lparr>connected := False\<rparr>,
                 trace := trace w1 @ [SendCommand ''sh run'', IsDir loc]\<rparr>)"
    using assms(1) bs
    by (simp add: upgrade_asa_def upgrade_body_def bindp_def handled_def Let_def)
  with bs f show ?thesis
    by (simp add: filter_empty_conv)
qed

text \<open>
  The theorem at the concrete appliance with the destination \<open>/nowhere\<close>.
\<close>

theorem backup_not_directory_halts_witness:
  "\<not> is_dir lab_env ''/nowhere''
   \<and> upgrade_asa lab_env ''ASA'' ''/tmp/asa.bin'' ''disk0:'' False True (Some ''/nowhere'') (start lab_device False)
     = (Returned (Some (lab_device\<lparr>connected := False, name := ''ciscoasa''\<rparr>)),
        \<lparr> dev = lab_device\<lparr>connected := False, name := ''ciscoasa''\<rparr>, scp_on = False,
           trace = [ConnectHandler lab_params, Enable, FindPrompt, SendCommand ''sh run'', IsDir ''/nowhere''] \<rparr>)"
proof -
  have c: "command_result lab_env ''sh run'' = Inr []" by (simp add: lab_env_fields)
  have n: "\<not> is_dir lab_env ''/nowhere''" by (simp add: lab_env_fields)
  from backup_not_directory_halts [OF lab_connect_stage c n, of "''ASA''" "''/tmp/asa.bin''" "''disk0:''" False] n
  show ?thesis by simp
qed

section \<open>The reboot path (C8)\<close>

text \<open>
  Claim C8 says that with a reboot requested and a probe that fails, the run ends without an
  exception, \<open>successfully_rebooted\<close> false and \<open>connected\<close> true. Evaluated on the
  concrete appliance, whose probe would return false: the first call of the reboot block,
  \<open>connection.send_confg_set\<close>, raises \<open>AttributeError\<close>, which no handler catches, so the
  exception leaves \<open>upgrade_asa\<close>; the wait and the probe are never reached.
\<close>

theorem reboot_raises_attribute_error:
  "fst (ping lab_env ''10.0.0.1'' 4 (start lab_device False)) = Inr False
   \<and> upgrade_asa lab_env ''ASA'' ''/tmp/asa.bin'' ''disk0:'' True False None (start lab_device False)
   = (Raised (AttributeError ''send_confg_set''),
      \<lparr> dev = lab_device\<lparr>connected := True, name := ''ciscoasa'', file_uploaded := True\<rparr>,
         scp_on = False,
         trace = [ConnectHandler lab_params, Enable, FindPrompt,
                  SendCommand ''sh run | i ssh scopy enable'', SendConfigSet [''ssh scopy enable''],
                  FileTransferOpen ''/tmp/asa.bin'' ''asa.bin'' ''disk0:'',
                  VerifySpaceAvailable, TransferFile, VerifyFile, FileTransferClose,
                  SendConfigSet [''no ssh scopy enable''],
                  SendConfigSet [''boot system disk0:/asa.bin''], SaveConfig,
                  SendConfgSet [''reboot'']] \<rparr>)"
  by (simp add: lab_run_reboot) (simp add: ping_def call_def lab_env_fields)

section \<open>Empty credentials (C9)\<close>

text \<open>
  Claim C9. Called with an empty credential list, the connector raises at once the
  \<open>ConnectionException\<close> whose message is \<open>No Credentials provided\<close>, and the world is
  as it was: no call has been made. The program has one exception class for all its
  connection errors; this one differs from the two raised after a failed search (all
  candidates rejected, or a timeout) by its message.
\<close>

theorem connect_no_credentials:
  "connect_to_device e ipaddr (CredList []) enable_mode device_type timeout w
     = (Inl (ConnectionException ''No Credentials provided''), w)
   \<and> ConnectionException ''No Credentials provided'' \<noteq> ConnectionException ''Unable to connect to device''
   \<and> ConnectionException ''No Credentials provided'' \<noteq> ConnectionException ''Connection to device timed out''"
  by (simp add: connect_to_device_def)

text \<open>
  The theorem at the concrete appliance.
\<close>

theorem connect_no_credentials_witness:
  "connect_to_device lab_env ''10.0.0.1'' (CredList []) True (TypeList [''cisco_asa'']) None (start lab_device False)
     = (Inl (ConnectionException ''No Credentials provided''), start lab_device False)"
  using connect_no_credentials [of lab_env "''10.0.0.1''" True "TypeList [''cisco_asa'']" None "start lab_device False"]
  by simp

section \<open>What the function returns (C10)\<close>

text \<open>
  Claim C10. \<open>upgrade_asa\<close> returns the device only when one of its two handlers caught
  an exception or on the path on which a reboot is requested after a successful upload; and
  every run whose \<open>try\<close> body ends without an exception (the connection succeeded and the
  upload failed without raising, or it succeeded and no reboot was requested) returns
  \<open>None\<close>.
\<close>

theorem device_returned_only_from_handlers:
  assumes "upgrade_asa e it il dd rb bc bl (start d scp) = (res, w')"
  shows "(\<forall>v. res = Returned (Some v) \<longrightarrow>
            (\<exists>x. fst (upgrade_body e it il dd rb bc bl (start d scp)) = Inl x \<and> handled x)
            \<or> (rb \<and> file_uploaded (dev w')))
       \<and> ((\<exists>v. fst (upgrade_body e it il dd rb bc bl (start d scp)) = Inr v) \<longrightarrow> res = Returned None)"
proof -
  obtain r wb where b: "upgrade_body e it il dd rb bc bl (start d scp) = (r, wb)"
    by (cases "upgrade_body e it il dd rb bc bl (start d scp)") auto
  show ?thesis
  proof (cases r)
    case (Inl x)
    with assms b show ?thesis
      by (auto simp: upgrade_asa_def Let_def split: if_splits)
  next
    case (Inr v)
    with b upgrade_body_none have "v = None" by blast
    with Inr assms b show ?thesis
      by (auto simp: upgrade_asa_def)
  qed
qed

text \<open>
  The theorem at the concrete appliance in both cases: the upload succeeds and no reboot is
  requested; the verification fails (and a reboot is requested). Either way the body ends
  without an exception and the function returns \<open>None\<close>.
\<close>

theorem device_returned_only_from_handlers_witness:
  "fst (upgrade_body lab_env ''asdm'' ''/tmp/asdm-741.bin'' ''disk0:'' False False None (start lab_device False)) = Inr None
   \<and> fst (upgrade_asa lab_env ''asdm'' ''/tmp/asdm-741.bin'' ''disk0:'' False False None (start lab_device False))
       = Returned None
   \<and> fst (upgrade_body unverified_env ''ASA'' ''/tmp/asa.bin'' ''disk0:'' True False None (start lab_device False)) = Inr None
   \<and> fst (upgrade_asa unverified_env ''ASA'' ''/tmp/asa.bin'' ''disk0:'' True False None (start lab_device False))
       = Returned None"
proof -
  have r: "upgrade_asa e it il dd rb bc bl w
     = (fst (upgrade_asa e it il dd rb bc bl w), snd (upgrade_asa e it il dd rb bc bl w))"
    for e it il dd rb bc bl w
    by simp
  from device_returned_only_from_handlers [OF r, of lab_env "''asdm''" "''/tmp/asdm-741.bin''" "''disk0:''" False False None lab_device False]
    device_returned_only_from_handlers [OF r, of unverified_env "''ASA''" "''/tmp/asa.bin''" "''disk0:''" True False None lab_device False]
    lab_body_asdm lab_body_unverified
  show ?thesis
    by simp
qed

end
